theory Spec2Isabelle
  imports Main "HOL-Library.Sublist"
begin

section \<open>JavaScript values of the deployment pipeline\<close>

text \<open>
  A thrown value is an error object: its class (\<open>Error\<close>, \<open>TypeError\<close>,
  \<open>ReferenceError\<close>, or whatever a client library throws), its \<open>message\<close> and its
  \<open>code\<close> (absent on the errors the program constructs itself; the gRPC status on an
  error of a Google client, where 5 is NOT_FOUND).
\<close>

text \<open>
  A \<open>string\<close> holds the text of a JavaScript string in UTF-8. What is computed on
  strings here is concatenation, comparison and \<open>endsWith\<close> with an ASCII literal,
  which give the same on the encoded text as on the JavaScript string.
\<close>

record js_error =
  err_class :: string
  message :: string
  code :: "int option"

definition new_Error :: "string \<Rightarrow> js_error" where
  "new_Error msg = \<lparr>err_class = ''Error'', message = msg, code = None\<rparr>"

definition new_TypeError :: "string \<Rightarrow> js_error" where
  "new_TypeError msg = \<lparr>err_class = ''TypeError'', message = msg, code = None\<rparr>"

definition new_ReferenceError :: "string \<Rightarrow> js_error" where
  "new_ReferenceError msg = \<lparr>err_class = ''ReferenceError'', message = msg, code = None\<rparr>"

text \<open>
  An object literal whose fields all hold strings (a progress notification, the result of
  a deployment) is the list of its fields, in the order the literal writes them.
\<close>

type_synonym js_object = "(string \<times> string) list"

text \<open>The manifests are JSON documents.\<close>

datatype json =
    JStr string
  | JNum int
  | JArr "json list"
  | JObj "(string \<times> json) list"

text \<open>
  An entry of the \<open>files\<close> array: a file-system path (tools \<open>deploy_local_files\<close> and
  \<open>deploy_local_folder\<close>, schema \<open>z.array(z.string())\<close>) or an object
  \<open>{filename, content}\<close> (tool \<open>deploy_file_contents\<close>).
\<close>

datatype file_entry =
    PathEntry string
  | ContentEntry string string

type_synonym bucket = string
type_synonym buffer = string

text \<open>
  The command lines handed to \<open>child_process.exec\<close>, kept as the program and the
  values interpolated into it:
  \<^item> \<open>gcloud container clusters get-credentials ${clusterId} --zone ${location} --project ${projectId}\<close>
  \<^item> \<open>echo '${JSON.stringify(manifest)}' | kubectl apply -f -\<close>
  \<^item> \<open>kubectl get service ${name} -o jsonpath='{.status.loadBalancer.ingress[0].ip}'\<close>

  \<open>KubectlApply m\<close> is the line into which the JSON text of the descriptor \<open>m\<close> is
  pasted. The text stands between single quotes and is not escaped for the shell: what
  the shell and \<open>kubectl\<close> make of the line (a name with a single quote in it ends the
  quoted text early) is not modelled.
\<close>

datatype command =
    GcloudGetCredentials string string string
  | KubectlApply json
  | KubectlGetServiceIp string

section \<open>Collaborators and the trace of a run\<close>

text \<open>
  Every call that leaves the module is recorded with its arguments; the progress
  callback is left out of the arguments.
\<close>

datatype call =
    GetService string
  | EnableService string
  | OperationPromise string
  | EnsureStorageBucketExists string string
  | ZipFiles "file_entry list"
  | UploadToStorageBucket bucket buffer string
  | EnsureArtifactRegistryRepoExists string string string string
  | TriggerCloudBuild string string string string string string bool
  | ClientGetCluster string
  | Exec command

text \<open>
  What a run does, in order: a call together with the error it threw (\<open>None\<close> when it
  returned), a notification delivered to the progress subscriber, a line on the console
  (\<open>console.error\<close> may print an error object after the text).
\<close>

datatype event =
    Call call "js_error option"
  | Progress js_object
  | ConsoleLog string
  | ConsoleError string "js_error option"

record cluster =
  status :: string
  currentNodeCount :: int
  currentMasterVersion :: string

text \<open>
  The collaborators of a run: each answers a call with a value or with the error it
  throws, and answers the same call in the same way every time. The Service Usage client
  answers from the remote state of the services (below) unless the call itself fails;
  \<open>getService_error\<close>, \<open>enableService_error\<close> and \<open>operation_error\<close> say, per
  service name, whether the read, the enable call and the wait on the returned operation
  throw.

  \<open>gke-deploy.js\<close> calls \<open>ensureStorageBucketExists\<close>, \<open>zipFiles\<close>,
  \<open>uploadToStorageBucket\<close>, \<open>ensureArtifactRegistryRepoExists\<close> and
  \<open>triggerCloudBuild\<close> but neither defines nor imports them: they are parameters here,
  each returning its value or the error it throws (in the module as it is shipped every
  such call throws a ReferenceError: \<open>shipped_env\<close> below). The notifications they may
  send to the progress subscriber themselves are outside the model.

  \<open>containerClient_getCluster\<close> is \<open>ContainerClient.getCluster\<close> of the client
  library and \<open>execPromise\<close> the promisified \<open>child_process.exec\<close>, which resolves
  to the standard output of the command.

  \<open>toLowerCase\<close> is \<open>String.prototype.toLowerCase\<close> of the JavaScript engine. It
  follows the case mappings of Unicode (the Kelvin sign becomes \<open>k\<close>, for one) and is
  a parameter as well: nothing here depends on what it maps to what.
\<close>

record env =
  getService_error :: "string \<Rightarrow> js_error option"
  enableService_error :: "string \<Rightarrow> js_error option"
  operation_error :: "string \<Rightarrow> js_error option"
  ensureStorageBucketExists :: "string \<Rightarrow> string \<Rightarrow> js_error + bucket"
  zipFiles :: "file_entry list \<Rightarrow> js_error + buffer"
  uploadToStorageBucket :: "bucket \<Rightarrow> buffer \<Rightarrow> string \<Rightarrow> js_error + unit"
  ensureArtifactRegistryRepoExists ::
    "string \<Rightarrow> string \<Rightarrow> string \<Rightarrow> string \<Rightarrow> js_error + string"
  triggerCloudBuild ::
    "string \<Rightarrow> string \<Rightarrow> string \<Rightarrow> string \<Rightarrow> string \<Rightarrow> string \<Rightarrow> bool \<Rightarrow> js_error + unit"
  containerClient_getCluster :: "string \<Rightarrow> js_error + cluster"
  execPromise :: "command \<Rightarrow> js_error + string"
  toLowerCase :: "string \<Rightarrow> string"

text \<open>
  The remote state of the project's services: the \<open>state\<close> field that
  \<open>getService\<close> reports for a service name (\<open>ENABLED\<close>, \<open>DISABLED\<close>, ...).
  An enable operation that completes leaves the service \<open>ENABLED\<close>; nothing else in
  a run changes the state.
\<close>

type_synonym services = "string \<Rightarrow> string"

text \<open>
  An asynchronous function that touches no remote state: what it returns or throws, and
  the events of its run. \<open>await\<close> on a rejected promise rethrows, so the rest of the
  caller's block is skipped: \<open>bind_out\<close>.
\<close>

type_synonym 'a outcome = "(js_error + 'a) \<times> event list"

definition returns :: "'a \<Rightarrow> 'a outcome" where
  "returns v = (Inr v, [])"

definition throws :: "js_error \<Rightarrow> 'a outcome" where
  "throws e = (Inl e, [])"

definition does :: "event list \<Rightarrow> unit outcome" where
  "does es = (Inr (), es)"

definition bind_out :: "'a outcome \<Rightarrow> ('a \<Rightarrow> 'b outcome) \<Rightarrow> 'b outcome" where
  "bind_out m f =
     (case m of
        (Inl e, es) \<Rightarrow> (Inl e, es)
      | (Inr v, es) \<Rightarrow> (case f v of (r, es') \<Rightarrow> (r, es @ es')))"

text \<open>\<open>try { m } catch (error) { handler; throw error; }\<close>\<close>

definition catch_rethrow :: "'a outcome \<Rightarrow> (js_error \<Rightarrow> event list) \<Rightarrow> 'a outcome" where
  "catch_rethrow m handler =
     (case m of
        (Inl e, es) \<Rightarrow> (Inl e, es @ handler e)
      | (Inr v, es) \<Rightarrow> (Inr v, es))"

definition thrown :: "js_error + 'a \<Rightarrow> js_error option" where
  "thrown r = (case r of Inl e \<Rightarrow> Some e | Inr _ \<Rightarrow> None)"

definition await_call :: "call \<Rightarrow> js_error + 'a \<Rightarrow> 'a outcome" where
  "await_call c r = (r, [Call c (thrown r)])"

section \<open>gke-deploy.js\<close>

definition REPO_NAME :: string where
  "REPO_NAME = ''mcp-gke-deployments''"

definition ZIP_FILE_NAME :: string where
  "ZIP_FILE_NAME = ''source.zip''"

definition IMAGE_TAG :: string where
  "IMAGE_TAG = ''latest''"

definition REQUIRED_APIS :: "string list" where
  "REQUIRED_APIS =
     [''iam.googleapis.com'', ''storage.googleapis.com'', ''cloudbuild.googleapis.com'',
      ''artifactregistry.googleapis.com'', ''container.googleapis.com'']"

text \<open>
  \<open>logAndProgress(message, progressCallback, severity = 'info')\<close>: the callback is
  optional, \<open>True\<close> stands for a subscriber being there. A subscriber returns normally.
\<close>

definition logAndProgress :: "string \<Rightarrow> bool \<Rightarrow> string \<Rightarrow> event list" where
  "logAndProgress msg progressCallback severity =
     (if severity = ''error'' then [ConsoleError msg None] else [ConsoleLog msg]) @
     (if progressCallback then [Progress [(''level'', severity), (''data'', msg)]] else [])"

text \<open>
  The body of the \<open>try\<close> in the loop of \<open>ensureApisEnabled\<close>, for one service name.
\<close>

definition ensureApi_try ::
  "env \<Rightarrow> string \<Rightarrow> string \<Rightarrow> bool \<Rightarrow> services \<Rightarrow> (js_error + unit) \<times> services \<times> event list" where
  "ensureApi_try E serviceName api progressCallback sv =
     (case getService_error E serviceName of
        Some e \<Rightarrow> (Inl e, sv, [Call (GetService serviceName) (Some e)])
      | None \<Rightarrow>
          if sv serviceName \<noteq> ''ENABLED'' then
            (let es = [Call (GetService serviceName) None] @
                      logAndProgress (''API ['' @ api @ ''] is not enabled. Enabling...'')
                        progressCallback ''info''
             in case enableService_error E serviceName of
                  Some e \<Rightarrow> (Inl e, sv, es @ [Call (EnableService serviceName) (Some e)])
                | None \<Rightarrow>
                    (case operation_error E serviceName of
                       Some e \<Rightarrow>
                         (Inl e, sv,
                          es @ [Call (EnableService serviceName) None,
                                Call (OperationPromise serviceName) (Some e)])
                     | None \<Rightarrow>
                         (Inr (), sv(serviceName := ''ENABLED''),
                          es @ [Call (EnableService serviceName) None,
                                Call (OperationPromise serviceName) None])))
          else (Inr (), sv, [Call (GetService serviceName) None]))"

fun ensureApis_loop ::
  "env \<Rightarrow> string \<Rightarrow> bool \<Rightarrow> string list \<Rightarrow> services \<Rightarrow> (js_error + unit) \<times> services \<times> event list" where
  "ensureApis_loop E projectId progressCallback [] sv = (Inr (), sv, [])"
| "ensureApis_loop E projectId progressCallback (api # apis) sv =
     (let serviceName = ''projects/'' @ projectId @ ''/services/'' @ api in
      case ensureApi_try E serviceName api progressCallback sv of
        (Inl e, sv', es) \<Rightarrow>
          (let errorMessage =
                 ''Failed to ensure API ['' @ api @ ''] is enabled. Please check manually.''
           in (Inl (new_Error errorMessage), sv',
               es @ [ConsoleError errorMessage (Some e)] @
               logAndProgress errorMessage progressCallback ''error''))
      | (Inr u, sv', es) \<Rightarrow>
          (case ensureApis_loop E projectId progressCallback apis sv' of
             (r, sv'', es') \<Rightarrow> (r, sv'', es @ es')))"

definition ensureApisEnabled ::
  "env \<Rightarrow> string \<Rightarrow> string list \<Rightarrow> bool \<Rightarrow> services \<Rightarrow> (js_error + unit) \<times> services \<times> event list" where
  "ensureApisEnabled E projectId apis progressCallback sv =
     (case ensureApis_loop E projectId progressCallback apis sv of
        (Inl e, sv', es) \<Rightarrow>
          (Inl e, sv',
           logAndProgress ''Checking and enabling required APIs...'' progressCallback ''info'' @ es)
      | (Inr u, sv', es) \<Rightarrow>
          (Inr (), sv',
           logAndProgress ''Checking and enabling required APIs...'' progressCallback ''info'' @ es @
           logAndProgress ''All required APIs are enabled.'' progressCallback ''info''))"

text \<open>\<open>locationPath\<close> of the client library renders the path template of a location.\<close>

definition locationPath :: "string \<Rightarrow> string \<Rightarrow> string" where
  "locationPath project location = ''projects/'' @ project @ ''/locations/'' @ location"

definition checkGkeClusterExists ::
  "env \<Rightarrow> string \<Rightarrow> string \<Rightarrow> string \<Rightarrow> bool \<Rightarrow> bool outcome" where
  "checkGkeClusterExists E projectId location clusterId progressCallback =
     (let parent = locationPath projectId location;
          c = ClientGetCluster (parent @ ''/clusters/'' @ clusterId)
      in case containerClient_getCluster E (parent @ ''/clusters/'' @ clusterId) of
           Inr cl \<Rightarrow>
             (Inr True,
              [Call c None] @
              logAndProgress (''GKE cluster '' @ clusterId @ '' exists.'') progressCallback ''info'')
         | Inl e \<Rightarrow>
             if code e = Some 5 then
               (Inr False,
                [Call c (Some e)] @
                logAndProgress (''GKE cluster '' @ clusterId @ '' does not exist.'')
                  progressCallback ''info'')
             else
               (Inl e,
                [Call c (Some e),
                 ConsoleError (''Error checking GKE cluster '' @ clusterId @ '':'') (Some e)] @
                logAndProgress
                  (''Error checking GKE cluster '' @ clusterId @ '': '' @ message e)
                  progressCallback ''error''))"

text \<open>The two object literals \<open>deployment\<close> and \<open>service\<close> of \<open>deployToGke\<close>.\<close>

definition deployment :: "string \<Rightarrow> string \<Rightarrow> json" where
  "deployment deploymentName imgUrl =
     JObj [
       (''apiVersion'', JStr ''apps/v1''),
       (''kind'', JStr ''Deployment''),
       (''metadata'', JObj [
          (''name'', JStr deploymentName),
          (''labels'', JObj [(''created-by'', JStr ''gke-mcp'')])]),
       (''spec'', JObj [
          (''replicas'', JNum 1),
          (''selector'', JObj [(''matchLabels'', JObj [(''app'', JStr deploymentName)])]),
          (''template'', JObj [
             (''metadata'', JObj [(''labels'', JObj [(''app'', JStr deploymentName)])]),
             (''spec'', JObj [
                (''containers'', JArr [
                   JObj [
                     (''name'', JStr deploymentName),
                     (''image'', JStr imgUrl),
                     (''ports'', JArr [JObj [(''containerPort'', JNum 8080)]])]])])])])]"

definition service :: "string \<Rightarrow> json" where
  "service deploymentName =
     JObj [
       (''apiVersion'', JStr ''v1''),
       (''kind'', JStr ''Service''),
       (''metadata'', JObj [
          (''name'', JStr (deploymentName @ ''-service'')),
          (''labels'', JObj [(''created-by'', JStr ''gke-mcp'')])]),
       (''spec'', JObj [
          (''type'', JStr ''LoadBalancer''),
          (''ports'', JArr [JObj [(''port'', JNum 80), (''targetPort'', JNum 8080)]]),
          (''selector'', JObj [(''app'', JStr deploymentName)])])]"

definition exec :: "env \<Rightarrow> command \<Rightarrow> string outcome" where
  "exec E c = await_call (Exec c) (execPromise E c)"

definition deployToGke ::
  "env \<Rightarrow> string \<Rightarrow> string \<Rightarrow> string \<Rightarrow> string \<Rightarrow> string \<Rightarrow> bool \<Rightarrow> js_object outcome" where
  "deployToGke E projectId location clusterId deploymentName imgUrl progressCallback =
     catch_rethrow
       (bind_out (checkGkeClusterExists E projectId location clusterId progressCallback)
          (\<lambda>exists.
        if \<not> exists then
          throws (new_Error (''GKE cluster '' @ clusterId @ '' does not exist. Please create it first.''))
        else
        bind_out (does (logAndProgress (''Getting credentials for cluster '' @ clusterId @ ''...'')
                          progressCallback ''info'')) (\<lambda>_.
        bind_out (exec E (GcloudGetCredentials clusterId location projectId)) (\<lambda>_.
        bind_out (does (logAndProgress (''Deploying '' @ deploymentName @ '' to GKE...'')
                          progressCallback ''info'')) (\<lambda>_.
        bind_out (exec E (KubectlApply (deployment deploymentName imgUrl))) (\<lambda>_.
        bind_out (exec E (KubectlApply (service deploymentName))) (\<lambda>_.
        bind_out (exec E (KubectlGetServiceIp (deploymentName @ ''-service''))) (\<lambda>stdout.
        bind_out (does (logAndProgress
                          (''Deployment successful! Service available at: http://'' @ stdout)
                          progressCallback ''info'')) (\<lambda>_.
        returns [(''name'', deploymentName), (''url'', ''http://'' @ stdout)])))))))))
       (\<lambda>e. [ConsoleError ''Error deploying to GKE:'' (Some e)] @
            logAndProgress (''Error deploying to GKE: '' @ message e) progressCallback ''error'')"

text \<open>\<open>String.prototype.endsWith\<close>.\<close>

definition endsWith :: "string \<Rightarrow> string \<Rightarrow> bool" where
  "endsWith s t = (length t \<le> length s \<and> drop (length s - length t) s = t)"

text \<open>
  \<open>files.some(file => file.toLowerCase().endsWith('dockerfile'))\<close>: \<open>some\<close> visits the
  entries in order and stops at the first one the callback accepts. A string has the
  method \<open>toLowerCase\<close> (the first argument here); an object \<open>{filename, content}\<close>
  has no such property, and calling \<open>undefined\<close> throws a TypeError.
\<close>

fun hasDockerfile :: "(string \<Rightarrow> string) \<Rightarrow> file_entry list \<Rightarrow> js_error + bool" where
  "hasDockerfile lower [] = Inr False"
| "hasDockerfile lower (PathEntry file # files) =
     (if endsWith (lower file) ''dockerfile'' then Inr True else hasDockerfile lower files)"
| "hasDockerfile lower (ContentEntry filename content # files) =
     Inl (new_TypeError ''file.toLowerCase is not a function'')"

text \<open>A parameter with a default value takes it when the caller leaves it undefined.\<close>

definition or_default :: "'a option \<Rightarrow> 'a \<Rightarrow> 'a" where
  "or_default x d = (case x of None \<Rightarrow> d | Some v \<Rightarrow> v)"

text \<open>
  \<open>deploy({projectId, serviceName = 'app', region = 'europe-west1',
  clusterId = 'default-cluster', files, progressCallback})\<close>. Loading the client
  modules and constructing the clients is taken to succeed.
\<close>

definition deploy ::
  "env \<Rightarrow> string \<Rightarrow> string option \<Rightarrow> string option \<Rightarrow> string option \<Rightarrow> file_entry list \<Rightarrow> bool \<Rightarrow>
   services \<Rightarrow> (js_error + js_object) \<times> services \<times> event list" where
  "deploy E projectId serviceName0 region0 clusterId0 files progressCallback sv =
     (let serviceName = or_default serviceName0 ''app'';
          region = or_default region0 ''europe-west1'';
          clusterId = or_default clusterId0 ''default-cluster''
      in
      case ensureApisEnabled E projectId REQUIRED_APIS progressCallback sv of
        (apis, sv', es) \<Rightarrow>
      case
        catch_rethrow
          (bind_out (apis, es) (\<lambda>_.
           let bucketName = projectId @ ''-'' @ REPO_NAME in
           bind_out (await_call (EnsureStorageBucketExists bucketName region)
                       (ensureStorageBucketExists E bucketName region)) (\<lambda>bucket.
           bind_out (await_call (ZipFiles files) (zipFiles E files)) (\<lambda>zipBuffer.
           bind_out (await_call (UploadToStorageBucket bucket zipBuffer ZIP_FILE_NAME)
                       (uploadToStorageBucket E bucket zipBuffer ZIP_FILE_NAME)) (\<lambda>_.
           let repoName = serviceName @ ''-repo'' in
           bind_out (await_call (EnsureArtifactRegistryRepoExists projectId region repoName ''DOCKER'')
                       (ensureArtifactRegistryRepoExists E projectId region repoName ''DOCKER''))
             (\<lambda>targetRepoName.
           let targetImageUrl = targetRepoName @ ''/'' @ serviceName @ '':'' @ IMAGE_TAG in
           bind_out (hasDockerfile (toLowerCase E) files, []) (\<lambda>hasDockerfile.
           bind_out (await_call
                       (TriggerCloudBuild projectId region bucketName ZIP_FILE_NAME targetRepoName
                          targetImageUrl hasDockerfile)
                       (triggerCloudBuild E projectId region bucketName ZIP_FILE_NAME targetRepoName
                          targetImageUrl hasDockerfile)) (\<lambda>_.
           deployToGke E projectId region clusterId serviceName targetImageUrl progressCallback))))))))
          (\<lambda>e. [ConsoleError ''Deployment failed:'' (Some e)] @
               logAndProgress (''Deployment failed: '' @ message e) progressCallback ''error'')
      of (r, es') \<Rightarrow> (r, sv', es'))"

section \<open>gke-clusters.js\<close>

definition clusterPath :: "string \<Rightarrow> string \<Rightarrow> string \<Rightarrow> string" where
  "clusterPath project location cl =
     ''projects/'' @ project @ ''/locations/'' @ location @ ''/clusters/'' @ cl"

text \<open>\<open>getCluster\<close> resolves to the cluster, or to \<open>null\<close> (\<open>None\<close>).\<close>

definition getCluster :: "env \<Rightarrow> string \<Rightarrow> string \<Rightarrow> string \<Rightarrow> cluster option outcome" where
  "getCluster E projectId location clusterId =
     (let name = clusterPath projectId location clusterId in
      case containerClient_getCluster E name of
        Inr cl \<Rightarrow> (Inr (Some cl), [Call (ClientGetCluster name) None])
      | Inl e \<Rightarrow>
          if code e = Some 5 then (Inr None, [Call (ClientGetCluster name) (Some e)])
          else (Inl e, [Call (ClientGetCluster name) (Some e),
                        ConsoleError ''Error getting GKE cluster:'' (Some e)]))"

section \<open>tools.js\<close>

text \<open>
  The handler of \<open>create_project\<close>. \<open>createProjectAndAttachBilling\<close> lives in
  \<open>lib/gcp-projects.js\<close> and is a parameter: it returns a result or throws. The
  argument \<open>projectId\<close> is a string or undefined (schema \<open>z.string().optional()\<close>).
  \<open>trim\<close> is \<open>String.prototype.trim\<close> of the JavaScript engine, which removes the
  white space and the line terminators of Unicode at both ends; it is a parameter too.

  The template literal of the success branch reads the identifier \<open>newProjectId\<close>, which
  \<open>tools.js\<close> declares nowhere: evaluating it throws a ReferenceError.
\<close>

definition newProjectId :: "js_error + string" where
  "newProjectId = Inl (new_ReferenceError ''newProjectId is not defined'')"

definition success_text :: "string \<Rightarrow> string" where
  \<open>success_text ident =
     ''Successfully created GCP project with ID "'' @ ident @
     ''". You can now use this project ID for deployments.''\<close>

definition create_project ::
  "(string \<Rightarrow> string) \<Rightarrow> (string option \<Rightarrow> js_error + 'r) \<Rightarrow> string option \<Rightarrow> string" where
  "create_project trim createProjectAndAttachBilling projectId =
     (if projectId \<noteq> None \<and> trim (the projectId) = [] then
        ''Error: If provided, Project ID must be a non-empty string.''
      else
        case (case createProjectAndAttachBilling projectId of
                Inl e \<Rightarrow> Inl e
              | Inr result \<Rightarrow>
                  (case newProjectId of
                     Inl e \<Rightarrow> Inl e
                   | Inr ident \<Rightarrow> Inr (success_text ident)))
        of
          Inr text \<Rightarrow> text
        | Inl e \<Rightarrow> ''Error creating GCP project or attaching billing: '' @ message e)"

text \<open>
  \<open>error.message || error\<close> in a template literal: the message, or the error
  rendered by \<open>toString\<close> when the message is empty (then the name of its class).
\<close>

definition message_or_error :: "js_error \<Rightarrow> string" where
  "message_or_error e = (if message e = [] then err_class e else message e)"

text \<open>\<open>response.url\<close>, rendered in a template literal.\<close>

definition response_url :: "js_object \<Rightarrow> string" where
  "response_url response = (case map_of response ''url'' of Some u \<Rightarrow> u | None \<Rightarrow> ''undefined'')"

text \<open>
  The handler of \<open>deploy_local_files\<close>: \<open>files\<close> is an array of strings, the other
  arguments have their schema defaults already. The handler passes no progress callback.
\<close>

definition deploy_local_files ::
  "env \<Rightarrow> string \<Rightarrow> string \<Rightarrow> string \<Rightarrow> string \<Rightarrow> string list \<Rightarrow> services \<Rightarrow>
   (js_error + string) \<times> services \<times> event list" where
  "deploy_local_files E project region clusterName serviceName files sv =
     (if files = [] then (Inl (new_Error ''No files specified for deployment''), sv, [])
      else
        case deploy E project (Some serviceName) (Some region) (Some clusterName)
               (map PathEntry files) False sv of
          (Inr response, sv', es) \<Rightarrow>
            (Inr (''GKE service '' @ serviceName @ '' deployed in project '' @ project @
                  [CHR 0x0A] @
                  ''Cloud Console: https://console.cloud.google.com/kubernetes/workload/overview?project='' @
                  project @ [CHR 0x0A] @ ''Service URL: '' @ response_url response), sv', es)
        | (Inl e, sv', es) \<Rightarrow>
            (Inr (''Error deploying to GKE: '' @ message_or_error e), sv', es))"

text \<open>
  The handler of \<open>deploy_file_contents\<close> (registered when the server runs on GCP, for
  the project \<open>currentProject\<close>): \<open>files\<close> is an array of objects
  \<open>{filename, content}\<close>, here pairs. An entry whose content is empty is refused. The
  handler's own \<open>console.log\<close> of the request is left out.
\<close>

fun files_without_content :: "(string \<times> string) list \<Rightarrow> js_error option" where
  "files_without_content [] = None"
| "files_without_content ((filename, content) # files) =
     (if content = [] then Some (new_Error (''File '' @ filename @ '' must have content''))
      else files_without_content files)"

definition deploy_file_contents ::
  "env \<Rightarrow> string \<Rightarrow> string \<Rightarrow> string \<Rightarrow> string \<Rightarrow> (string \<times> string) list \<Rightarrow> services \<Rightarrow>
   (js_error + string) \<times> services \<times> event list" where
  "deploy_file_contents E currentProject region clusterName serviceName files sv =
     (if files = [] then (Inl (new_Error ''Files must be specified''), sv, [])
      else
        case files_without_content files of
          Some e \<Rightarrow> (Inl e, sv, [])
        | None \<Rightarrow>
            (case deploy E currentProject (Some serviceName) (Some region) (Some clusterName)
                    (map (\<lambda>(filename, content). ContentEntry filename content) files) False sv of
               (Inr response, sv', es) \<Rightarrow>
                 (Inr (''GKE service '' @ serviceName @ '' deployed in project '' @ currentProject @
                       [CHR 0x0A] @
                       ''Cloud Console: https://console.cloud.google.com/kubernetes/workload/overview?project='' @
                       currentProject @ [CHR 0x0A] @ ''Service URL: '' @ response_url response), sv', es)
             | (Inl e, sv', es) \<Rightarrow>
                 (Inr (''Error deploying to GKE: '' @ message_or_error e), sv', es)))"

section \<open>Reading a trace\<close>

text \<open>The stages of the pipeline, and the stage each outgoing call belongs to.\<close>

datatype stage =
    EnableAPIs
  | EnsureBucket
  | PackageSource
  | UploadSource
  | EnsureRegistry
  | TriggerBuild
  | EnsureCluster
  | ApplyManifests


fun stage_of :: "call \<Rightarrow> stage" where
  "stage_of (GetService n) = EnableAPIs"
| "stage_of (EnableService n) = EnableAPIs"
| "stage_of (OperationPromise n) = EnableAPIs"
| "stage_of (EnsureStorageBucketExists n r) = EnsureBucket"
| "stage_of (ZipFiles fs) = PackageSource"
| "stage_of (UploadToStorageBucket b z n) = UploadSource"
| "stage_of (EnsureArtifactRegistryRepoExists p r n f) = EnsureRegistry"
| "stage_of (TriggerCloudBuild p r b z t i d) = TriggerBuild"
| "stage_of (ClientGetCluster n) = EnsureCluster"
| "stage_of (Exec c) = ApplyManifests"

text \<open>The calls of a trace with their outcomes, in order.\<close>

fun calls :: "event list \<Rightarrow> (call \<times> js_error option) list" where
  "calls [] = []"
| "calls (Call c r # es) = (c, r) # calls es"
| "calls (Progress obj # es) = calls es"
| "calls (ConsoleLog m # es) = calls es"
| "calls (ConsoleError m e # es) = calls es"

text \<open>The stages a trace enters, in order: consecutive calls of one stage count once.\<close>

definition stages_invoked :: "event list \<Rightarrow> stage list" where
  "stages_invoked es = remdups_adj (map (\<lambda>cr. stage_of (fst cr)) (calls es))"


text \<open>
  The calls of a run in which nothing fails. Those of \<open>ensureApisEnabled\<close> on distinct
  APIs, from the remote state \<open>sv\<close>: one read per API, followed by the enable call and
  the wait on its operation when the API is not enabled.
\<close>

definition enable_one :: "services \<Rightarrow> string \<Rightarrow> call list" where
  "enable_one sv serviceName =
     (if sv serviceName = ''ENABLED'' then [GetService serviceName]
      else [GetService serviceName, EnableService serviceName, OperationPromise serviceName])"

fun enable_calls :: "services \<Rightarrow> string \<Rightarrow> string list \<Rightarrow> call list" where
  "enable_calls sv projectId [] = []"
| "enable_calls sv projectId (api # apis) =
     enable_one sv (''projects/'' @ projectId @ ''/services/'' @ api) @
     enable_calls sv projectId apis"



text \<open>
  The calls of the first stage: all of them belong to \<open>EnableAPIs\<close>, only the last
  may have failed, none has failed when the stage returns, and a stage that throws has
  made a call.
\<close>

definition api_calls :: "(js_error + unit) \<Rightarrow> event list \<Rightarrow> bool" where
  "api_calls r es =
     (list_all (\<lambda>cr. stage_of (fst cr) = EnableAPIs) (calls es) \<and>
      list_all (\<lambda>cr. snd cr = None) (butlast (calls es)) \<and>
      (case r of Inr u \<Rightarrow> list_all (\<lambda>cr. snd cr = None) (calls es) | Inl e \<Rightarrow> calls es \<noteq> []))"

text \<open>
  The descriptors whose JSON text a trace pastes into an apply command line, in order.
\<close>

fun descriptors_sent :: "event list \<Rightarrow> json list" where
  "descriptors_sent [] = []"
| "descriptors_sent (Call (Exec (KubectlApply m)) r # es) = m # descriptors_sent es"
| "descriptors_sent (e # es) = descriptors_sent es"

text \<open>Reading a field of a JSON object, and a nested field along a path.\<close>

fun jfield :: "string \<Rightarrow> json \<Rightarrow> json option" where
  "jfield k (JObj members) = map_of members k"
| "jfield k j = None"

fun jpath :: "string list \<Rightarrow> json \<Rightarrow> json option" where
  "jpath [] j = Some j"
| "jpath (k # ks) j = (case jfield k j of None \<Rightarrow> None | Some j' \<Rightarrow> jpath ks j')"

text \<open>The notifications the progress subscriber received, in order.\<close>

fun notifications :: "event list \<Rightarrow> js_object list" where
  "notifications [] = []"
| "notifications (Progress obj # es) = obj # notifications es"
| "notifications (Call c r # es) = notifications es"
| "notifications (ConsoleLog m # es) = notifications es"
| "notifications (ConsoleError m e # es) = notifications es"

text \<open>
  The shape of a notification: the two fields \<open>level\<close> and \<open>data\<close>, in this order and
  no other, the level being \<open>info\<close> or \<open>error\<close>.
\<close>

definition level_and_data :: "js_object \<Rightarrow> bool" where
  "level_and_data obj =
     (map fst obj = [''level'', ''data''] \<and>
      (map_of obj ''level'' = Some ''info'' \<or> map_of obj ''level'' = Some ''error''))"

definition all_level_and_data :: "event list \<Rightarrow> bool" where
  "all_level_and_data es = list_all level_and_data (notifications es)"

section \<open>Test doubles and scenarios\<close>

text \<open>
  Doubles for the two functions of the engine, for the scenarios below, whose strings are
  all ASCII: on a string of ASCII characters \<open>toLowerCase\<close> maps the letters A to Z
  and \<open>trim\<close> removes tab, line feed, vertical tab, form feed, carriage return and
  space. On other strings the doubles are not the engine's functions, and no scenario
  applies them to one.

  A double for the collaborators: every one succeeds, except that the cluster read
  answers \<open>cluster_response\<close> and the address query prints \<open>address\<close>.
\<close>

definition ascii_toLowerCase :: "string \<Rightarrow> string" where
  "ascii_toLowerCase s =
     map (\<lambda>c. let n = (of_char c :: nat) in if 65 \<le> n \<and> n \<le> 90 then char_of (n + 32) else c) s"

definition ascii_white_space :: "char \<Rightarrow> bool" where
  "ascii_white_space c = ((of_char c :: nat) \<in> {9, 10, 11, 12, 13, 32})"

definition ascii_trim :: "string \<Rightarrow> string" where
  "ascii_trim s = rev (dropWhile ascii_white_space (rev (dropWhile ascii_white_space s)))"

definition running_cluster :: cluster where
  "running_cluster = \<lparr>status = ''RUNNING'', currentNodeCount = 3, currentMasterVersion = ''1.30''\<rparr>"

definition mock_env :: "(js_error + cluster) \<Rightarrow> string \<Rightarrow> env" where
  "mock_env cluster_response address =
     \<lparr>getService_error = (\<lambda>n. None),
      enableService_error = (\<lambda>n. None),
      operation_error = (\<lambda>n. None),
      ensureStorageBucketExists = (\<lambda>n r. Inr n),
      zipFiles = (\<lambda>fs. Inr ''PK''),
      uploadToStorageBucket = (\<lambda>b z n. Inr ()),
      ensureArtifactRegistryRepoExists =
        (\<lambda>p r n f. Inr (r @ ''-docker.pkg.dev/'' @ p @ ''/'' @ n)),
      triggerCloudBuild = (\<lambda>p r b z t i d. Inr ()),
      containerClient_getCluster = (\<lambda>n. cluster_response),
      execPromise = (\<lambda>c. case c of KubectlGetServiceIp n \<Rightarrow> Inr address | _ \<Rightarrow> Inr []),
      toLowerCase = ascii_toLowerCase\<rparr>"

definition not_found :: js_error where
  "not_found = \<lparr>err_class = ''Error'', message = ''5 NOT_FOUND: cluster not found'', code = Some 5\<rparr>"

definition permission_denied :: js_error where
  "permission_denied =
     \<lparr>err_class = ''Error'', message = ''7 PERMISSION_DENIED: missing permission'', code = Some 7\<rparr>"

text \<open>
  The module as it is shipped: the five helpers are not defined, so each call of one
  throws a ReferenceError. The other collaborators succeed.
\<close>

definition shipped_env :: env where
  "shipped_env =
     (mock_env (Inr running_cluster) ''198.51.100.7'')
       \<lparr>ensureStorageBucketExists :=
          (\<lambda>n r. Inl (new_ReferenceError ''ensureStorageBucketExists is not defined'')),
        zipFiles := (\<lambda>fs. Inl (new_ReferenceError ''zipFiles is not defined'')),
        uploadToStorageBucket :=
          (\<lambda>b z n. Inl (new_ReferenceError ''uploadToStorageBucket is not defined'')),
        ensureArtifactRegistryRepoExists :=
          (\<lambda>p r n f. Inl (new_ReferenceError ''ensureArtifactRegistryRepoExists is not defined'')),
        triggerCloudBuild :=
          (\<lambda>p r b z t i d. Inl (new_ReferenceError ''triggerCloudBuild is not defined''))\<rparr>"

definition all_enabled :: services where
  "all_enabled = (\<lambda>n. ''ENABLED'')"

definition all_disabled :: services where
  "all_disabled = (\<lambda>n. ''DISABLED'')"

text \<open>
  Scenario A: every prerequisite is there, the build succeeds, the address is assigned.
  Scenario B: the module as shipped. Scenario C: the cluster does not exist.
\<close>

definition scenario_A :: "(js_error + js_object) \<times> services \<times> event list" where
  "scenario_A =
     deploy (mock_env (Inr running_cluster) ''198.51.100.7'') ''my-project'' None None None
       [PathEntry ''/srv/app/Dockerfile'', PathEntry ''/srv/app/index.js''] True all_enabled"


definition scenario_C :: "(js_error + js_object) \<times> services \<times> event list" where
  "scenario_C =
     deploy (mock_env (Inl not_found) ''198.51.100.7'') ''my-project'' (Some ''app'')
       (Some ''europe-west1'') (Some ''prod'')
       [PathEntry ''/srv/app/Dockerfile'', PathEntry ''/srv/app/index.js''] True all_enabled"

text \<open>
  Two runs of \<open>deployToGke\<close> on a cluster that is there. Scenario D: the address is not
  assigned yet when it is read, the read prints nothing. Scenario E: the address is
  assigned.
\<close>

definition scenario_D :: "js_object outcome" where
  "scenario_D =
     deployToGke (mock_env (Inr running_cluster) []) ''my-project'' ''europe-west1'' ''prod''
       ''app'' ''europe-west1-docker.pkg.dev/my-project/app-repo/app:latest'' True"

definition scenario_E :: "js_object outcome" where
  "scenario_E =
     deployToGke (mock_env (Inr running_cluster) ''198.51.100.7'') ''my-project'' ''europe-west1''
       ''prod'' ''app'' ''europe-west1-docker.pkg.dev/my-project/app-repo/app:latest'' True"

text \<open>Scenario F: no required API is enabled yet, and each one can be enabled.\<close>

definition scenario_F :: "(js_error + unit) \<times> services \<times> event list" where
  "scenario_F =
     ensureApisEnabled (mock_env (Inr running_cluster) ''198.51.100.7'') ''my-project''
       REQUIRED_APIS True all_disabled"

text \<open>
  The module as shipped, through the two tools. Scenario G: \<open>deploy_file_contents\<close>
  is given a Dockerfile and a script as inline contents. Scenario H:
  \<open>deploy_local_files\<close> is given the same two files as paths.
\<close>

definition scenario_G :: "(js_error + string) \<times> services \<times> event list" where
  "scenario_G =
     deploy_file_contents shipped_env ''my-project'' ''europe-west1'' ''prod'' ''app''
       [(''Dockerfile'', ''FROM node:20''), (''index.js'', ''console.log(1)'')] all_enabled"

definition scenario_H :: "(js_error + string) \<times> services \<times> event list" where
  "scenario_H =
     deploy_local_files shipped_env ''my-project'' ''europe-west1'' ''prod'' ''app''
       [''/srv/app/Dockerfile'', ''/srv/app/index.js''] all_enabled"

section \<open>Facts about traces\<close>

lemma calls_append: "calls (xs @ ys) = calls xs @ calls ys"
  by (induction xs rule: calls.induct) simp_all

lemma notifications_append: "notifications (xs @ ys) = notifications xs @ notifications ys"
  by (induction xs rule: notifications.induct) simp_all

lemma calls_logAndProgress: "calls (logAndProgress m cb s) = []"
  by (simp add: logAndProgress_def)

lemmas run_defs =
  bind_out_def catch_rethrow_def returns_def throws_def does_def await_call_def exec_def thrown_def

lemma list_all_butlast_append:
  "list_all P xs \<Longrightarrow> list_all P (butlast ys) \<Longrightarrow> list_all P (butlast (xs @ ys))"
  by (auto simp: butlast_append list_all_iff dest: in_set_butlastD)

lemma ensureApi_try_calls:
  "ensureApi_try E n api cb sv = (r, sv', es) \<Longrightarrow> api_calls r es \<and> calls es \<noteq> []"
  by (auto simp: ensureApi_try_def api_calls_def calls_append calls_logAndProgress Let_def
      split: option.splits if_splits)

lemma ensureApis_loop_calls:
  "ensureApis_loop E p cb apis sv = (r, sv', es) \<Longrightarrow>
   api_calls r es \<and> (apis \<noteq> [] \<longrightarrow> calls es \<noteq> [])"
proof (induction apis arbitrary: sv r sv' es)
  case Nil
  then show ?case by (auto simp: api_calls_def)
next
  case (Cons api apis)
  let ?n = "''projects/'' @ p @ ''/services/'' @ api"
  obtain r1 sv1 es1 where t: "ensureApi_try E ?n api cb sv = (r1, sv1, es1)"
    by (cases "ensureApi_try E ?n api cb sv") auto
  from ensureApi_try_calls[OF t] have a1: "api_calls r1 es1" and n1: "calls es1 \<noteq> []" by auto
  show ?case
  proof (cases r1)
    case (Inl e)
    with Cons.prems t a1 n1 show ?thesis
      by (auto simp: Let_def api_calls_def calls_append calls_logAndProgress)
  next
    case (Inr u)
    obtain r2 sv2 es2 where l: "ensureApis_loop E p cb apis sv1 = (r2, sv2, es2)"
      by (cases "ensureApis_loop E p cb apis sv1") auto
    from Cons.IH[OF l] have a2: "api_calls r2 es2" by simp
    from Cons.prems t Inr l have eq: "r = r2" "es = es1 @ es2" by (auto simp: Let_def)
    from a1 Inr have ok1: "list_all (\<lambda>cr. snd cr = None) (calls es1)" by (simp add: api_calls_def)
    show ?thesis using a1 a2 n1 ok1 unfolding eq api_calls_def calls_append
      by (auto simp: list_all_butlast_append split: sum.splits)
  qed
qed

lemma ensureApisEnabled_calls:
  assumes a: "ensureApisEnabled E p apis cb sv = (r, sv', es)"
  shows "api_calls r es \<and> (apis \<noteq> [] \<longrightarrow> calls es \<noteq> [])"
proof -
  obtain r0 sv0 es0 where l: "ensureApis_loop E p cb apis sv = (r0, sv0, es0)"
    by (cases "ensureApis_loop E p cb apis sv") auto
  from ensureApis_loop_calls[OF l] a l show ?thesis
    by (auto simp: ensureApisEnabled_def api_calls_def calls_append calls_logAndProgress
        split: sum.splits)
qed






lemma api_calls_stage:
  "api_calls a es \<Longrightarrow> (c, x) \<in> set (calls es) \<Longrightarrow> stage_of c = EnableAPIs"
  by (auto simp: api_calls_def list_all_iff)

lemma descriptors_sent_append:
  "descriptors_sent (xs @ ys) = descriptors_sent xs @ descriptors_sent ys"
  by (induction xs rule: descriptors_sent.induct) simp_all

lemma descriptors_sent_logAndProgress: "descriptors_sent (logAndProgress m cb s) = []"
  by (simp add: logAndProgress_def)

lemma notifications_logAndProgress:
  "notifications (logAndProgress m cb s) = (if cb then [[(''level'', s), (''data'', m)]] else [])"
  by (simp add: logAndProgress_def)

lemma all_level_and_data_append:
  "all_level_and_data (xs @ ys) = (all_level_and_data xs \<and> all_level_and_data ys)"
  by (simp add: all_level_and_data_def notifications_append)

lemma all_level_and_data_logAndProgress:
  "all_level_and_data (logAndProgress m cb ''info'')"
  "all_level_and_data (logAndProgress m cb ''error'')"
  by (simp_all add: all_level_and_data_def notifications_logAndProgress level_and_data_def)

lemma all_level_and_data_simps:
  "all_level_and_data []"
  "all_level_and_data (Call c r # es) = all_level_and_data es"
  "all_level_and_data (ConsoleLog m # es) = all_level_and_data es"
  "all_level_and_data (ConsoleError m e # es) = all_level_and_data es"
  by (simp_all add: all_level_and_data_def)

lemmas lad = all_level_and_data_append all_level_and_data_logAndProgress all_level_and_data_simps

lemma ensureApi_try_notifications:
  "ensureApi_try E n api cb sv = (r, sv', es) \<Longrightarrow> all_level_and_data es"
  by (auto simp: ensureApi_try_def lad Let_def split: option.splits if_splits)

lemma ensureApis_loop_notifications:
  "ensureApis_loop E p cb apis sv = (r, sv', es) \<Longrightarrow> all_level_and_data es"
proof (induction apis arbitrary: sv r sv' es)
  case Nil
  then show ?case by (simp add: lad)
next
  case (Cons api apis)
  then show ?case
    by (auto simp: Let_def lad split: prod.splits sum.splits dest: ensureApi_try_notifications)
qed

lemma ensureApisEnabled_notifications:
  "ensureApisEnabled E p apis cb sv = (r, sv', es) \<Longrightarrow> all_level_and_data es"
  by (auto simp: ensureApisEnabled_def lad split: prod.splits sum.splits
      dest: ensureApis_loop_notifications)

lemma deployToGke_notifications:
  "all_level_and_data (snd (deployToGke E p l c n i cb))"
  by (auto simp add: deployToGke_def checkGkeClusterExists_def run_defs lad Let_def
      split: sum.splits if_splits)

lemma deploy_notifications:
  assumes d: "deploy E p sn rg ci files cb sv = (r, sv', es)"
  shows "all_level_and_data es"
proof -
  obtain a sv1 es1 where
    en: "ensureApisEnabled E p REQUIRED_APIS cb sv = (a, sv1, es1)"
    by (cases "ensureApisEnabled E p REQUIRED_APIS cb sv") auto
  from ensureApisEnabled_notifications[OF en] have n1: "all_level_and_data es1" .
  have G2: "deployToGke E p l c n i cb = (x, y) \<Longrightarrow> all_level_and_data y" for l c n i x y
    using deployToGke_notifications[of E p l c n i cb] by simp
  show ?thesis
    using d en n1
    by (auto simp add: deploy_def Let_def run_defs lad
        split: sum.splits if_splits prod.splits dest: G2)
qed

text \<open>The remote state of the services along the loop of \<open>ensureApisEnabled\<close>.\<close>

lemma ensureApi_try_state:
  "ensureApi_try E n api cb sv = (r, sv', es) \<Longrightarrow>
   (sv m = ''ENABLED'' \<longrightarrow> sv' m = ''ENABLED'') \<and>
   (r = Inr u \<longrightarrow> sv' n = ''ENABLED'' \<and> getService_error E n = None) \<and>
   (sv n = ''ENABLED'' \<longrightarrow> (\<forall>x. (EnableService n, x) \<notin> set (calls es))) \<and>
   (\<forall>m x. m \<noteq> n \<longrightarrow> (EnableService m, x) \<notin> set (calls es))"
  by (auto simp: ensureApi_try_def calls_append calls_logAndProgress Let_def
      split: option.splits if_splits)

lemma ensureApis_loop_keeps_enabled:
  "ensureApis_loop E p cb apis sv = (r, sv', es) \<Longrightarrow> sv m = ''ENABLED'' \<Longrightarrow> sv' m = ''ENABLED''"
proof (induction apis arbitrary: sv r sv' es)
  case Nil
  then show ?case by simp
next
  case (Cons api apis)
  then show ?case
    by (auto simp: Let_def split: prod.splits sum.splits dest: ensureApi_try_state)
qed

lemma ensureApis_loop_success:
  "ensureApis_loop E p cb apis sv = (Inr u, sv', es) \<Longrightarrow> api \<in> set apis \<Longrightarrow>
   sv' (''projects/'' @ p @ ''/services/'' @ api) = ''ENABLED'' \<and>
   getService_error E (''projects/'' @ p @ ''/services/'' @ api) = None"
proof (induction apis arbitrary: sv sv' es)
  case Nil
  then show ?case by simp
next
  case (Cons a apis)
  let ?n = "''projects/'' @ p @ ''/services/'' @ a"
  obtain r1 sv1 es1 where t: "ensureApi_try E ?n a cb sv = (r1, sv1, es1)"
    by (cases "ensureApi_try E ?n a cb sv") auto
  obtain r2 sv2 es2 where l: "ensureApis_loop E p cb apis sv1 = (r2, sv2, es2)"
    by (cases "ensureApis_loop E p cb apis sv1") auto
  from Cons.prems(1) t l have r1: "r1 = Inr ()" and r2: "r2 = Inr u" and sv2: "sv2 = sv'"
    by (auto simp: Let_def split: sum.splits)
  show ?case
  proof (cases "api = a")
    case True
    from ensureApi_try_state[OF t, of ?n "()"] r1
    have "sv1 ?n = ''ENABLED''" "getService_error E ?n = None" by auto
    with ensureApis_loop_keeps_enabled[OF l, of ?n] sv2 True show ?thesis by simp
  next
    case False
    with Cons.prems(2) have "api \<in> set apis" by simp
    from Cons.IH[OF l[unfolded r2 sv2] this] show ?thesis .
  qed
qed

lemma ensureApis_loop_noop:
  "(\<And>api. api \<in> set apis \<Longrightarrow> sv (''projects/'' @ p @ ''/services/'' @ api) = ''ENABLED'' \<and>
        getService_error E (''projects/'' @ p @ ''/services/'' @ api) = None) \<Longrightarrow>
   ensureApis_loop E p cb apis sv =
     (Inr (), sv, map (\<lambda>api. Call (GetService (''projects/'' @ p @ ''/services/'' @ api)) None) apis)"
  by (induction apis) (simp_all add: ensureApi_try_def Let_def)

lemma ensureApis_loop_no_enable:
  "ensureApis_loop E p cb apis sv = (r, sv', es) \<Longrightarrow> sv m = ''ENABLED'' \<Longrightarrow>
   (EnableService m, x) \<notin> set (calls es)"
proof (induction apis arbitrary: sv r sv' es)
  case Nil
  then show ?case by simp
next
  case (Cons a apis)
  let ?n = "''projects/'' @ p @ ''/services/'' @ a"
  obtain r1 sv1 es1 where t: "ensureApi_try E ?n a cb sv = (r1, sv1, es1)"
    by (cases "ensureApi_try E ?n a cb sv") auto
  from ensureApi_try_state[OF t, of m "()"] Cons.prems(2)
  have k: "sv1 m = ''ENABLED''" and no1: "(EnableService m, x) \<notin> set (calls es1)"
    by (cases "m = ?n"; auto)+
  show ?case
  proof (cases r1)
    case (Inl e)
    with Cons.prems(1) t no1 show ?thesis
      by (auto simp: Let_def calls_append calls_logAndProgress)
  next
    case (Inr u)
    obtain r2 sv2 es2 where l: "ensureApis_loop E p cb apis sv1 = (r2, sv2, es2)"
      by (cases "ensureApis_loop E p cb apis sv1") auto
    from Cons.IH[OF l k] have "(EnableService m, x) \<notin> set (calls es2)" .
    with Cons.prems(1) t Inr l no1 show ?thesis
      by (auto simp: Let_def calls_append)
  qed
qed

lemma calls_of_reads: "map fst (calls (map (\<lambda>api. Call (f api) None) apis)) = map f apis"
  by (induction apis) simp_all

text \<open>The calls of \<open>ensureApisEnabled\<close>, one by one.\<close>

lemma ensureApi_try_prefix:
  "ensureApi_try E n api cb sv = (r, sv', es) \<Longrightarrow> prefix (map fst (calls es)) (enable_one sv n)"
  by (auto simp: ensureApi_try_def enable_one_def calls_append calls_logAndProgress Let_def
      split: option.splits if_splits)

lemma ensureApi_try_returns:
  "ensureApi_try E n api cb sv = (Inr u, sv', es) \<Longrightarrow> map fst (calls es) = enable_one sv n"
  by (auto simp: ensureApi_try_def enable_one_def calls_append calls_logAndProgress Let_def
      split: option.splits if_splits)

lemma ensureApi_try_throws:
  "ensureApi_try E n api cb sv = (Inl e, sv', es) \<Longrightarrow> list_ex (\<lambda>cr. snd cr \<noteq> None) (calls es)"
  by (auto simp: ensureApi_try_def calls_append calls_logAndProgress Let_def
      split: option.splits if_splits)

lemma ensureApi_try_others:
  "ensureApi_try E n api cb sv = (r, sv', es) \<Longrightarrow> m \<noteq> n \<Longrightarrow> sv' m = sv m"
  by (auto simp: ensureApi_try_def Let_def split: option.splits if_splits)

lemma enable_calls_cong:
  "(\<And>api. api \<in> set apis \<Longrightarrow>
      sv1 (''projects/'' @ p @ ''/services/'' @ api) = sv (''projects/'' @ p @ ''/services/'' @ api)) \<Longrightarrow>
   enable_calls sv1 p apis = enable_calls sv p apis"
  by (induction apis) (simp_all add: enable_one_def)

lemma ensureApis_loop_exact:
  "distinct apis \<Longrightarrow> ensureApis_loop E p cb apis sv = (r, sv', es) \<Longrightarrow>
   prefix (map fst (calls es)) (enable_calls sv p apis) \<and>
   (\<forall>u. r = Inr u \<longrightarrow> map fst (calls es) = enable_calls sv p apis) \<and>
   (\<forall>e. r = Inl e \<longrightarrow> list_ex (\<lambda>cr. snd cr \<noteq> None) (calls es))"
proof (induction apis arbitrary: sv r sv' es)
  case Nil
  then show ?case by auto
next
  case (Cons api apis)
  let ?n = "''projects/'' @ p @ ''/services/'' @ api"
  obtain r1 sv1 es1 where t: "ensureApi_try E ?n api cb sv = (r1, sv1, es1)"
    by (cases "ensureApi_try E ?n api cb sv") auto
  have expected: "enable_calls sv p (api # apis) = enable_one sv ?n @ enable_calls sv p apis"
    by simp
  show ?case
  proof (cases r1)
    case (Inl e)
    from Cons.prems(2) t Inl have c: "calls es = calls es1"
      by (auto simp: Let_def calls_append calls_logAndProgress)
    from Cons.prems(2) t Inl have "isl r"
      by (auto simp: Let_def)
    then have notr: "\<And>u. r \<noteq> Inr u" by auto
    from ensureApi_try_prefix[OF t]
    have "prefix (map fst (calls es)) (enable_one sv ?n @ enable_calls sv p apis)"
      unfolding c by (rule prefix_prefix)
    moreover from ensureApi_try_throws[OF t[unfolded Inl]]
    have "list_ex (\<lambda>cr. snd cr \<noteq> None) (calls es)" unfolding c .
    ultimately show ?thesis unfolding expected using notr by blast
  next
    case (Inr u)
    obtain r2 sv2 es2 where l: "ensureApis_loop E p cb apis sv1 = (r2, sv2, es2)"
      by (cases "ensureApis_loop E p cb apis sv1") auto
    from Cons.prems(1) have d: "distinct apis" and notin: "api \<notin> set apis" by auto
    have same: "enable_calls sv1 p apis = enable_calls sv p apis"
    proof (rule enable_calls_cong)
      fix a assume "a \<in> set apis"
      with notin have "''projects/'' @ p @ ''/services/'' @ a \<noteq> ?n" by auto
      from ensureApi_try_others[OF t this]
      show "sv1 (''projects/'' @ p @ ''/services/'' @ a) =
            sv (''projects/'' @ p @ ''/services/'' @ a)" .
    qed
    note ih = Cons.IH[OF d l, unfolded same]
    from Cons.prems(2) t Inr l have eq: "r = r2" "es = es1 @ es2" by (auto simp: Let_def)
    from ensureApi_try_returns[OF t[unfolded Inr]]
    have one: "map fst (calls es1) = enable_one sv ?n" .
    have c: "map fst (calls es) = enable_one sv ?n @ map fst (calls es2)"
      unfolding eq by (simp add: calls_append one)
    have ex: "list_ex (\<lambda>cr. snd cr \<noteq> None) (calls es2) \<Longrightarrow>
              list_ex (\<lambda>cr. snd cr \<noteq> None) (calls es)"
      unfolding eq by (simp add: calls_append)
    from ih have "prefix (map fst (calls es)) (enable_one sv ?n @ enable_calls sv p apis)"
      unfolding c by simp
    moreover have "map fst (calls es) = enable_one sv ?n @ enable_calls sv p apis"
      if "r = Inr u'" for u'
    proof -
      from that eq(1) have "r2 = Inr u'" by simp
      with ih have "map fst (calls es2) = enable_calls sv p apis" by blast
      with c show ?thesis by simp
    qed
    moreover from ih ex have "\<And>e. r = Inl e \<Longrightarrow> list_ex (\<lambda>cr. snd cr \<noteq> None) (calls es)"
      unfolding eq(1) by blast
    ultimately show ?thesis unfolding expected by blast
  qed
qed

lemma ensureApisEnabled_exact:
  assumes "distinct apis" and a: "ensureApisEnabled E p apis cb sv = (r, sv', es)"
  shows "prefix (map fst (calls es)) (enable_calls sv p apis) \<and>
         (\<forall>u. r = Inr u \<longrightarrow> map fst (calls es) = enable_calls sv p apis) \<and>
         (\<forall>e. r = Inl e \<longrightarrow> list_ex (\<lambda>cr. snd cr \<noteq> None) (calls es))"
proof -
  obtain r0 sv0 es0 where l: "ensureApis_loop E p cb apis sv = (r0, sv0, es0)"
    by (cases "ensureApis_loop E p cb apis sv") auto
  from ensureApis_loop_exact[OF assms(1) l] a l show ?thesis
    by (auto simp: ensureApisEnabled_def calls_append calls_logAndProgress split: sum.splits)
qed

section \<open>The order of the stages\<close>



section \<open>The cluster check\<close>

text \<open>
  C7. A NOT_FOUND answer (error code 5) to the cluster read is not an error:
  \<open>checkGkeClusterExists\<close> returns \<open>false\<close> and \<open>getCluster\<close> returns \<open>null\<close>.
  Any other failure of the read is thrown on to the caller unchanged, and a cluster that
  is there gives \<open>true\<close>, respectively the cluster: the caller can tell the three apart.
\<close>

theorem cluster_not_found_is_a_result:
  "(containerClient_getCluster E (locationPath p l @ ''/clusters/'' @ c) = Inl e \<longrightarrow>
      fst (checkGkeClusterExists E p l c cb) = (if code e = Some 5 then Inr False else Inl e)) \<and>
   (containerClient_getCluster E (locationPath p l @ ''/clusters/'' @ c) = Inr cl \<longrightarrow>
      fst (checkGkeClusterExists E p l c cb) = Inr True) \<and>
   (containerClient_getCluster E (clusterPath p l c) = Inl e \<longrightarrow>
      fst (getCluster E p l c) = (if code e = Some 5 then Inr None else Inl e)) \<and>
   (containerClient_getCluster E (clusterPath p l c) = Inr cl \<longrightarrow>
      fst (getCluster E p l c) = Inr (Some cl))"
  by (simp add: checkGkeClusterExists_def getCluster_def Let_def)

theorem cluster_not_found_is_a_result_witness:
  "fst (checkGkeClusterExists (mock_env (Inl not_found) []) ''p'' ''r'' ''c'' True) = Inr False \<and>
   fst (getCluster (mock_env (Inl not_found) []) ''p'' ''r'' ''c'') = Inr None \<and>
   fst (checkGkeClusterExists (mock_env (Inl permission_denied) []) ''p'' ''r'' ''c'' True) =
     Inl permission_denied \<and>
   fst (getCluster (mock_env (Inl permission_denied) []) ''p'' ''r'' ''c'') = Inl permission_denied \<and>
   fst (checkGkeClusterExists (mock_env (Inr running_cluster) []) ''p'' ''r'' ''c'' True) = Inr True \<and>
   fst (getCluster (mock_env (Inr running_cluster) []) ''p'' ''r'' ''c'') = Inr (Some running_cluster)"
  using cluster_not_found_is_a_result
          [of "mock_env (Inl not_found) []" "''p''" "''r''" "''c''" not_found True]
        cluster_not_found_is_a_result
          [of "mock_env (Inl permission_denied) []" "''p''" "''r''" "''c''" permission_denied True]
        cluster_not_found_is_a_result
          [of "mock_env (Inr running_cluster) []" "''p''" "''r''" "''c''" _ True running_cluster]
  by (simp add: mock_env_def not_found_def permission_denied_def)

section \<open>Deploying onto a missing cluster\<close>

text \<open>
  C2. When the cluster read answers NOT_FOUND, \<open>deployToGke\<close> throws the error made
  for this case, whose message names the cluster (\<open>GKE cluster <id> does not exist.
  Please create it first.\<close>), and the cluster read is the only call it makes: nothing
  creates the cluster, no credentials are fetched and no manifest is applied. A run of
  \<open>deploy\<close> for such a cluster always fails and executes no command; once it has
  reached the cluster read, what it throws is that error. The error stands for this case
  only: unless a collaborator throws the very same error itself, \<open>deployToGke\<close> throws
  it for a missing cluster and for nothing else.
\<close>

theorem missing_cluster_is_a_precondition_failure:
  "(\<forall>e. containerClient_getCluster E (locationPath p l @ ''/clusters/'' @ c) = Inl e \<and>
        code e = Some 5 \<longrightarrow>
      fst (deployToGke E p l c n i cb) =
        Inl (new_Error (''GKE cluster '' @ c @ '' does not exist. Please create it first.'')) \<and>
      calls (snd (deployToGke E p l c n i cb)) =
        [(ClientGetCluster (locationPath p l @ ''/clusters/'' @ c), Some e)] \<and>
      (\<forall>sn files sv r sv' es.
         deploy E p sn (Some l) (Some c) files cb sv = (r, sv', es) \<longrightarrow>
           isl r \<and>
           (\<forall>cmd x. (Exec cmd, x) \<notin> set (calls es)) \<and>
           ((ClientGetCluster (locationPath p l @ ''/clusters/'' @ c), Some e) \<in> set (calls es) \<longrightarrow>
              r = Inl (new_Error
                         (''GKE cluster '' @ c @ '' does not exist. Please create it first.''))))) \<and>
   (fst (deployToGke E p l c n i cb) =
      Inl (new_Error (''GKE cluster '' @ c @ '' does not exist. Please create it first.'')) \<and>
    containerClient_getCluster E (locationPath p l @ ''/clusters/'' @ c) \<noteq>
      Inl (new_Error (''GKE cluster '' @ c @ '' does not exist. Please create it first.'')) \<and>
    (\<forall>cmd. execPromise E cmd \<noteq>
      Inl (new_Error (''GKE cluster '' @ c @ '' does not exist. Please create it first.''))) \<longrightarrow>
    (\<exists>e. containerClient_getCluster E (locationPath p l @ ''/clusters/'' @ c) = Inl e \<and>
         code e = Some 5))"
proof -
  have missing:
    "fst (deployToGke E p l c n i cb) =
       Inl (new_Error (''GKE cluster '' @ c @ '' does not exist. Please create it first.'')) \<and>
     calls (snd (deployToGke E p l c n i cb)) =
       [(ClientGetCluster (locationPath p l @ ''/clusters/'' @ c), Some e)] \<and>
     (\<forall>sn files sv r sv' es.
        deploy E p sn (Some l) (Some c) files cb sv = (r, sv', es) \<longrightarrow>
          isl r \<and>
          (\<forall>cmd x. (Exec cmd, x) \<notin> set (calls es)) \<and>
          ((ClientGetCluster (locationPath p l @ ''/clusters/'' @ c), Some e) \<in> set (calls es) \<longrightarrow>
             r = Inl (new_Error
                        (''GKE cluster '' @ c @ '' does not exist. Please create it first.''))))"
    if g: "containerClient_getCluster E (locationPath p l @ ''/clusters/'' @ c) = Inl e"
      and five: "code e = Some 5" for e
  proof -
    have gke:
      "\<And>n i. fst (deployToGke E p l c n i cb) =
         Inl (new_Error (''GKE cluster '' @ c @ '' does not exist. Please create it first.''))"
      "\<And>n i. calls (snd (deployToGke E p l c n i cb)) =
         [(ClientGetCluster (locationPath p l @ ''/clusters/'' @ c), Some e)]"
      using g five
      by (simp_all add: deployToGke_def checkGkeClusterExists_def run_defs calls_append
          calls_logAndProgress Let_def)
    have dep:
      "isl r \<and>
       (\<forall>cmd x. (Exec cmd, x) \<notin> set (calls es)) \<and>
       ((ClientGetCluster (locationPath p l @ ''/clusters/'' @ c), Some e) \<in> set (calls es) \<longrightarrow>
          r = Inl (new_Error (''GKE cluster '' @ c @ '' does not exist. Please create it first.'')))"
      if d: "deploy E p sn (Some l) (Some c) files cb sv = (r, sv', es)"
      for sn files sv r sv' es
    proof -
      obtain a sv1 es1 where
        en: "ensureApisEnabled E p REQUIRED_APIS cb sv = (a, sv1, es1)"
        by (cases "ensureApisEnabled E p REQUIRED_APIS cb sv") auto
      from ensureApisEnabled_calls[OF en] have ac: "api_calls a es1" by simp
      have no1: "\<And>cmd x. (Exec cmd, x) \<notin> set (calls es1)"
        "\<And>nm x. (ClientGetCluster nm, x) \<notin> set (calls es1)"
        using api_calls_stage[OF ac] by fastforce+
      show ?thesis
      proof (cases a)
        case (Inl e')
        with d en no1 show ?thesis
          by (auto simp add: deploy_def Let_def run_defs calls_append calls_logAndProgress)
      next
        case (Inr u)
        define es2 where "es2 = (\<lambda>n i. snd (deployToGke E p l c n i cb))"
        have g2:
          "deployToGke E p l c n i cb =
             (Inl (new_Error (''GKE cluster '' @ c @ '' does not exist. Please create it first.'')),
              es2 n i)"
          "calls (es2 n i) = [(ClientGetCluster (locationPath p l @ ''/clusters/'' @ c), Some e)]"
          for n i
          using gke[of n i] by (simp_all add: es2_def prod_eq_iff)
        show ?thesis
          using d en Inr no1
          by (auto simp add: deploy_def g2 Let_def run_defs or_default_def
              calls_append calls_logAndProgress
              split: sum.splits if_splits)
      qed
    qed
    from gke dep show ?thesis by blast
  qed
  have only:
    "\<exists>e. containerClient_getCluster E (locationPath p l @ ''/clusters/'' @ c) = Inl e \<and>
         code e = Some 5"
    if "fst (deployToGke E p l c n i cb) =
          Inl (new_Error (''GKE cluster '' @ c @ '' does not exist. Please create it first.''))"
      and "containerClient_getCluster E (locationPath p l @ ''/clusters/'' @ c) \<noteq>
          Inl (new_Error (''GKE cluster '' @ c @ '' does not exist. Please create it first.''))"
      and "\<And>cmd. execPromise E cmd \<noteq>
          Inl (new_Error (''GKE cluster '' @ c @ '' does not exist. Please create it first.''))"
    using that
    by (auto simp add: deployToGke_def checkGkeClusterExists_def run_defs Let_def
        split: sum.splits if_splits)
  from missing only show ?thesis by blast
qed

theorem missing_cluster_is_a_precondition_failure_witness:
  "fst (deployToGke (mock_env (Inl not_found) ''198.51.100.7'') ''my-project'' ''europe-west1''
          ''prod'' ''app'' ''image'' True) =
     Inl (new_Error ''GKE cluster prod does not exist. Please create it first.'') \<and>
   fst scenario_C = Inl (new_Error ''GKE cluster prod does not exist. Please create it first.'')"
proof -
  have g: "containerClient_getCluster (mock_env (Inl not_found) ''198.51.100.7'')
             (locationPath ''my-project'' ''europe-west1'' @ ''/clusters/'' @ ''prod'') = Inl not_found"
    by (simp add: mock_env_def)
  have five: "code not_found = Some 5"
    by (simp add: not_found_def)
  note T = missing_cluster_is_a_precondition_failure
             [of "mock_env (Inl not_found) ''198.51.100.7''" "''my-project''" "''europe-west1''"
                 "''prod''" "''app''" "''image''" True]
  have rd: "(ClientGetCluster (locationPath ''my-project'' ''europe-west1'' @ ''/clusters/'' @ ''prod''),
             Some not_found) \<in> set (calls (snd (snd scenario_C)))"
    unfolding scenario_C_def by code_simp
  have run: "deploy (mock_env (Inl not_found) ''198.51.100.7'') ''my-project'' (Some ''app'')
               (Some ''europe-west1'') (Some ''prod'')
               [PathEntry ''/srv/app/Dockerfile'', PathEntry ''/srv/app/index.js''] True all_enabled =
             (fst scenario_C, fst (snd scenario_C), snd (snd scenario_C))"
    by (simp add: scenario_C_def)
  from T g five have first:
    "fst (deployToGke (mock_env (Inl not_found) ''198.51.100.7'') ''my-project'' ''europe-west1''
          ''prod'' ''app'' ''image'' True) =
     Inl (new_Error (''GKE cluster '' @ ''prod'' @ '' does not exist. Please create it first.''))"
    by blast
  from T g five run rd have "fst scenario_C =
      Inl (new_Error (''GKE cluster '' @ ''prod'' @ '' does not exist. Please create it first.''))"
    by blast
  with first show ?thesis by simp
qed

section \<open>Reading the external address\<close>

text \<open>
  C3, as the code has it. \<open>deployToGke\<close> reads the external address of the Service
  once, after the two manifests are applied: there is no polling and no timeout. On
  success the URL is \<open>http://\<close> followed by the text that read printed. A command that
  fails, the read of the address like an apply, throws its error on to the caller
  unchanged.
\<close>

theorem address_is_read_once_and_returned_as_printed:
  assumes "deployToGke E p l c n i cb = (r, es)"
  shows "length (filter (\<lambda>cr. fst cr = Exec (KubectlGetServiceIp (n @ ''-service''))) (calls es)) \<le> 1 \<and>
   (\<forall>obj. r = Inr obj \<longrightarrow>
      (\<exists>addr. execPromise E (KubectlGetServiceIp (n @ ''-service'')) = Inr addr \<and>
         map_of obj ''url'' = Some (''http://'' @ addr) \<and>
         map fst (calls es) =
           [ClientGetCluster (locationPath p l @ ''/clusters/'' @ c),
            Exec (GcloudGetCredentials c l p),
            Exec (KubectlApply (deployment n i)),
            Exec (KubectlApply (service n)),
            Exec (KubectlGetServiceIp (n @ ''-service''))])) \<and>
   (\<forall>cmd e. (Exec cmd, Some e) \<in> set (calls es) \<longrightarrow> r = Inl e)"
  using assms
  by (auto simp add: deployToGke_def checkGkeClusterExists_def run_defs calls_append
      calls_logAndProgress Let_def split: sum.splits if_splits)

theorem address_is_read_once_and_returned_as_printed_witness:
  "map fst (calls (snd scenario_E)) =
     [ClientGetCluster (locationPath ''my-project'' ''europe-west1'' @ ''/clusters/'' @ ''prod''),
      Exec (GcloudGetCredentials ''prod'' ''europe-west1'' ''my-project''),
      Exec (KubectlApply
              (deployment ''app'' ''europe-west1-docker.pkg.dev/my-project/app-repo/app:latest'')),
      Exec (KubectlApply (service ''app'')),
      Exec (KubectlGetServiceIp (''app'' @ ''-service''))]"
proof -
  have ok: "fst scenario_E = Inr [(''name'', ''app''), (''url'', ''http://198.51.100.7'')]"
    unfolding scenario_E_def by code_simp
  have run: "deployToGke (mock_env (Inr running_cluster) ''198.51.100.7'') ''my-project''
               ''europe-west1'' ''prod'' ''app''
               ''europe-west1-docker.pkg.dev/my-project/app-repo/app:latest'' True =
             (fst scenario_E, snd scenario_E)"
    by (simp add: scenario_E_def)
  from address_is_read_once_and_returned_as_printed[OF run] ok show ?thesis by blast
qed

text \<open>
  Scenario D: the address is not assigned yet, the read prints nothing. The run reads the
  Service once and returns the URL \<open>http://\<close>, with no address in it.
\<close>

theorem url_without_address_counterexample:
  "fst scenario_D = Inr [(''name'', ''app''), (''url'', ''http://'')] \<and>
   length (filter (\<lambda>cr. fst cr = Exec (KubectlGetServiceIp ''app-service''))
             (calls (snd scenario_D))) = 1"
  unfolding scenario_D_def by code_simp

section \<open>The manifests\<close>

text \<open>
  C6. The two descriptors are functions of the service name and the image alone, and
  they are these documents, field by field. The workload is a Deployment
  named after the service, labelled \<open>created-by\<close>, with one replica and one container,
  which has the name of the service, the given image and the port 8080; its selector and
  the labels of its pods are \<open>app: <name>\<close>. The Service is named \<open><name>-service\<close>,
  labelled \<open>created-by\<close>, of type LoadBalancer, with the port 80 routed to the port 8080,
  and it selects the pods of the workload. Whatever the project, the location, the
  cluster and the collaborators, the descriptors a run of \<open>deployToGke\<close> pastes into
  its apply commands are an initial part of \<open>[deployment n i, service n]\<close>, and both
  when the run returns a result: two runs with the same name and image send the same
  descriptors. (What the shell makes of the command line is not part of the statement.)
\<close>

theorem manifests_are_a_function_of_name_and_image:
  "deployment n i =
     JObj [
       (''apiVersion'', JStr ''apps/v1''),
       (''kind'', JStr ''Deployment''),
       (''metadata'', JObj [
          (''name'', JStr n),
          (''labels'', JObj [(''created-by'', JStr ''gke-mcp'')])]),
       (''spec'', JObj [
          (''replicas'', JNum 1),
          (''selector'', JObj [(''matchLabels'', JObj [(''app'', JStr n)])]),
          (''template'', JObj [
             (''metadata'', JObj [(''labels'', JObj [(''app'', JStr n)])]),
             (''spec'', JObj [
                (''containers'', JArr [
                   JObj [
                     (''name'', JStr n),
                     (''image'', JStr i),
                     (''ports'', JArr [JObj [(''containerPort'', JNum 8080)]])]])])])])] \<and>
   service n =
     JObj [
       (''apiVersion'', JStr ''v1''),
       (''kind'', JStr ''Service''),
       (''metadata'', JObj [
          (''name'', JStr (n @ ''-service'')),
          (''labels'', JObj [(''created-by'', JStr ''gke-mcp'')])]),
       (''spec'', JObj [
          (''type'', JStr ''LoadBalancer''),
          (''ports'', JArr [JObj [(''port'', JNum 80), (''targetPort'', JNum 8080)]]),
          (''selector'', JObj [(''app'', JStr n)])])] \<and>
   prefix (descriptors_sent (snd (deployToGke E p l c n i cb))) [deployment n i, service n] \<and>
   (\<forall>obj. fst (deployToGke E p l c n i cb) = Inr obj \<longrightarrow>
      descriptors_sent (snd (deployToGke E p l c n i cb)) = [deployment n i, service n]) \<and>
   jpath [''kind''] (deployment n i) = Some (JStr ''Deployment'') \<and>
   jpath [''metadata'', ''name''] (deployment n i) = Some (JStr n) \<and>
   jpath [''spec'', ''template'', ''spec'', ''containers''] (deployment n i) =
     Some (JArr [JObj [(''name'', JStr n), (''image'', JStr i),
                       (''ports'', JArr [JObj [(''containerPort'', JNum 8080)]])]]) \<and>
   jpath [''spec'', ''replicas''] (deployment n i) = Some (JNum 1) \<and>
   jpath [''metadata'', ''labels'', ''created-by''] (deployment n i) = Some (JStr ''gke-mcp'') \<and>
   jpath [''spec'', ''selector'', ''matchLabels''] (deployment n i) =
     jpath [''spec'', ''template'', ''metadata'', ''labels''] (deployment n i) \<and>
   jpath [''kind''] (service n) = Some (JStr ''Service'') \<and>
   jpath [''metadata'', ''name''] (service n) = Some (JStr (n @ ''-service'')) \<and>
   jpath [''metadata'', ''labels'', ''created-by''] (service n) = Some (JStr ''gke-mcp'') \<and>
   jpath [''spec'', ''type''] (service n) = Some (JStr ''LoadBalancer'') \<and>
   jpath [''spec'', ''ports''] (service n) =
     Some (JArr [JObj [(''port'', JNum 80), (''targetPort'', JNum 8080)]]) \<and>
   jpath [''spec'', ''selector''] (service n) = Some (JObj [(''app'', JStr n)]) \<and>
   jpath [''spec'', ''selector''] (service n) =
     jpath [''spec'', ''template'', ''metadata'', ''labels''] (deployment n i)"
proof -
  have run:
    "prefix (descriptors_sent (snd (deployToGke E p l c n i cb))) [deployment n i, service n] \<and>
     (\<forall>obj. fst (deployToGke E p l c n i cb) = Inr obj \<longrightarrow>
        descriptors_sent (snd (deployToGke E p l c n i cb)) = [deployment n i, service n])"
    by (auto simp add: deployToGke_def checkGkeClusterExists_def run_defs descriptors_sent_append
        descriptors_sent_logAndProgress Let_def split: sum.splits if_splits)
  have documents:
    "deployment n i =
     JObj [
       (''apiVersion'', JStr ''apps/v1''),
       (''kind'', JStr ''Deployment''),
       (''metadata'', JObj [
          (''name'', JStr n),
          (''labels'', JObj [(''created-by'', JStr ''gke-mcp'')])]),
       (''spec'', JObj [
          (''replicas'', JNum 1),
          (''selector'', JObj [(''matchLabels'', JObj [(''app'', JStr n)])]),
          (''template'', JObj [
             (''metadata'', JObj [(''labels'', JObj [(''app'', JStr n)])]),
             (''spec'', JObj [
                (''containers'', JArr [
                   JObj [
                     (''name'', JStr n),
                     (''image'', JStr i),
                     (''ports'', JArr [JObj [(''containerPort'', JNum 8080)]])]])])])])]"
    "service n =
     JObj [
       (''apiVersion'', JStr ''v1''),
       (''kind'', JStr ''Service''),
       (''metadata'', JObj [
          (''name'', JStr (n @ ''-service'')),
          (''labels'', JObj [(''created-by'', JStr ''gke-mcp'')])]),
       (''spec'', JObj [
          (''type'', JStr ''LoadBalancer''),
          (''ports'', JArr [JObj [(''port'', JNum 80), (''targetPort'', JNum 8080)]]),
          (''selector'', JObj [(''app'', JStr n)])])]"
    by (simp_all add: deployment_def service_def)
  have shape:
    "jpath [''kind''] (deployment n i) = Some (JStr ''Deployment'')"
    "jpath [''metadata'', ''name''] (deployment n i) = Some (JStr n)"
    "jpath [''spec'', ''template'', ''spec'', ''containers''] (deployment n i) =
       Some (JArr [JObj [(''name'', JStr n), (''image'', JStr i),
                         (''ports'', JArr [JObj [(''containerPort'', JNum 8080)]])]])"
    "jpath [''spec'', ''replicas''] (deployment n i) = Some (JNum 1)"
    "jpath [''metadata'', ''labels'', ''created-by''] (deployment n i) = Some (JStr ''gke-mcp'')"
    "jpath [''spec'', ''selector'', ''matchLabels''] (deployment n i) =
       jpath [''spec'', ''template'', ''metadata'', ''labels''] (deployment n i)"
    "jpath [''kind''] (service n) = Some (JStr ''Service'')"
    "jpath [''metadata'', ''name''] (service n) = Some (JStr (n @ ''-service''))"
    "jpath [''metadata'', ''labels'', ''created-by''] (service n) = Some (JStr ''gke-mcp'')"
    "jpath [''spec'', ''type''] (service n) = Some (JStr ''LoadBalancer'')"
    "jpath [''spec'', ''ports''] (service n) =
       Some (JArr [JObj [(''port'', JNum 80), (''targetPort'', JNum 8080)]])"
    "jpath [''spec'', ''selector''] (service n) = Some (JObj [(''app'', JStr n)])"
    "jpath [''spec'', ''selector''] (service n) =
       jpath [''spec'', ''template'', ''metadata'', ''labels''] (deployment n i)"
    by (simp_all add: deployment_def service_def)
  from run documents shape show ?thesis by blast
qed

theorem manifests_are_a_function_of_name_and_image_witness:
  "descriptors_sent (snd scenario_E) =
     [deployment ''app'' ''europe-west1-docker.pkg.dev/my-project/app-repo/app:latest'',
      service ''app''] \<and>
   descriptors_sent (snd scenario_D) = descriptors_sent (snd scenario_E)"
proof -
  have e: "fst scenario_E = Inr [(''name'', ''app''), (''url'', ''http://198.51.100.7'')]"
    unfolding scenario_E_def by code_simp
  have d: "fst scenario_D = Inr [(''name'', ''app''), (''url'', ''http://'')]"
    unfolding scenario_D_def by code_simp
  from e manifests_are_a_function_of_name_and_image
         [of "''app''" "''europe-west1-docker.pkg.dev/my-project/app-repo/app:latest''"
             "mock_env (Inr running_cluster) ''198.51.100.7''" "''my-project''" "''europe-west1''"
             "''prod''" True]
  have E: "descriptors_sent (snd scenario_E) =
     [deployment ''app'' ''europe-west1-docker.pkg.dev/my-project/app-repo/app:latest'',
      service ''app'']"
    unfolding scenario_E_def by blast
  from d manifests_are_a_function_of_name_and_image
         [of "''app''" "''europe-west1-docker.pkg.dev/my-project/app-repo/app:latest''"
             "mock_env (Inr running_cluster) []" "''my-project''" "''europe-west1''"
             "''prod''" True]
  have D: "descriptors_sent (snd scenario_D) =
     [deployment ''app'' ''europe-west1-docker.pkg.dev/my-project/app-repo/app:latest'',
      service ''app'']"
    unfolding scenario_D_def by blast
  from E D show ?thesis by simp
qed

section \<open>Ensuring the APIs\<close>

text \<open>
  C4. \<open>ensureApisEnabled\<close> is idempotent. After an invocation that returned, a second
  invocation with the same arguments returns the same value, leaves the remote state as
  it is, and only reads: its calls are one \<open>getService\<close> per API, with no
  \<open>enableService\<close> and no wait on an operation. In particular, in any invocation,
  \<open>enableService\<close> is never called for a service whose state is \<open>ENABLED\<close>.
\<close>

theorem ensure_apis_is_idempotent:
  "(\<forall>u sv' es. ensureApisEnabled E p apis cb sv = (Inr u, sv', es) \<longrightarrow>
      fst (ensureApisEnabled E p apis cb sv') = Inr u \<and>
      fst (snd (ensureApisEnabled E p apis cb sv')) = sv' \<and>
      map fst (calls (snd (snd (ensureApisEnabled E p apis cb sv')))) =
        map (\<lambda>api. GetService (''projects/'' @ p @ ''/services/'' @ api)) apis) \<and>
   (\<forall>m x. sv m = ''ENABLED'' \<longrightarrow>
      (EnableService m, x) \<notin> set (calls (snd (snd (ensureApisEnabled E p apis cb sv)))))"
proof -
  have second:
    "fst (ensureApisEnabled E p apis cb sv') = Inr u \<and>
     fst (snd (ensureApisEnabled E p apis cb sv')) = sv' \<and>
     map fst (calls (snd (snd (ensureApisEnabled E p apis cb sv')))) =
       map (\<lambda>api. GetService (''projects/'' @ p @ ''/services/'' @ api)) apis"
    if a: "ensureApisEnabled E p apis cb sv = (Inr u, sv', es)" for u sv' es
  proof -
    obtain es0 where l: "ensureApis_loop E p cb apis sv = (Inr u, sv', es0)"
      using a by (auto simp: ensureApisEnabled_def split: prod.splits sum.splits)
    have "ensureApis_loop E p cb apis sv' =
       (Inr (), sv',
        map (\<lambda>api. Call (GetService (''projects/'' @ p @ ''/services/'' @ api)) None) apis)"
      by (rule ensureApis_loop_noop) (use ensureApis_loop_success[OF l] in blast)
    then show ?thesis
      by (simp add: ensureApisEnabled_def calls_append calls_logAndProgress calls_of_reads)
  qed
  have part: "(EnableService m, x) \<notin> set (calls (snd (snd (ensureApisEnabled E p apis cb sv))))"
    if "sv m = ''ENABLED''" for m x
  proof -
    obtain r1 sv1 es1 where l1: "ensureApis_loop E p cb apis sv = (r1, sv1, es1)"
      by (cases "ensureApis_loop E p cb apis sv") auto
    from ensureApis_loop_no_enable[OF l1 that, of x] l1 show ?thesis
      by (auto simp: ensureApisEnabled_def calls_append calls_logAndProgress split: sum.splits)
  qed
  from second part show ?thesis by blast
qed

theorem ensure_apis_is_idempotent_witness:
  "(EnableService ''projects/my-project/services/iam.googleapis.com'', None)
     \<in> set (calls (snd (snd scenario_F))) \<and>
   map fst (calls (snd (snd
     (ensureApisEnabled (mock_env (Inr running_cluster) ''198.51.100.7'') ''my-project''
        REQUIRED_APIS True (fst (snd scenario_F)))))) =
     map (\<lambda>api. GetService (''projects/'' @ ''my-project'' @ ''/services/'' @ api)) REQUIRED_APIS"
proof -
  have first: "fst scenario_F = Inr ()"
    unfolding scenario_F_def by code_simp
  have enabling: "(EnableService ''projects/my-project/services/iam.googleapis.com'', None)
     \<in> set (calls (snd (snd scenario_F)))"
    unfolding scenario_F_def by code_simp
  have run: "ensureApisEnabled (mock_env (Inr running_cluster) ''198.51.100.7'') ''my-project''
               REQUIRED_APIS True all_disabled =
             (Inr (), fst (snd scenario_F), snd (snd scenario_F))"
    using first by (simp add: scenario_F_def prod_eq_iff)
  from ensure_apis_is_idempotent
         [of "mock_env (Inr running_cluster) ''198.51.100.7''" "''my-project''" REQUIRED_APIS True
             all_disabled]
       run enabling
  show ?thesis by blast
qed

section \<open>The result of a deployment\<close>

text \<open>
  C5, as the code has it. A run of \<open>deployToGke\<close> that succeeds returns an object
  with the two fields \<open>name\<close>, holding the service name, and \<open>url\<close>, holding
  \<open>http://\<close> followed by the text the read of the address printed; \<open>deploy\<close>
  returns that object as it is.
\<close>

theorem deployment_result_has_name_and_url:
  "(\<forall>obj es. deployToGke E p l c n i cb = (Inr obj, es) \<longrightarrow>
      (\<exists>addr. execPromise E (KubectlGetServiceIp (n @ ''-service'')) = Inr addr \<and>
         obj = [(''name'', n), (''url'', ''http://'' @ addr)])) \<and>
   (\<forall>obj sv' es. deploy E p sn rg ci files cb sv = (Inr obj, sv', es) \<longrightarrow>
      (\<exists>addr. execPromise E (KubectlGetServiceIp (or_default sn ''app'' @ ''-service'')) = Inr addr \<and>
         obj = [(''name'', or_default sn ''app''), (''url'', ''http://'' @ addr)]))"
proof -
  obtain a sv1 es1 where
    en: "ensureApisEnabled E p REQUIRED_APIS cb sv = (a, sv1, es1)"
    by (cases "ensureApisEnabled E p REQUIRED_APIS cb sv") auto
  have G: "deployToGke E p l c n i cb = (Inr x, y) \<Longrightarrow>
      \<exists>addr. execPromise E (KubectlGetServiceIp (n @ ''-service'')) = Inr addr \<and>
           x = [(''name'', n), (''url'', ''http://'' @ addr)]" for l c n i x y
    by (auto simp add: deployToGke_def checkGkeClusterExists_def run_defs Let_def
        split: sum.splits if_splits)
  have D: "\<exists>addr. execPromise E (KubectlGetServiceIp (or_default sn ''app'' @ ''-service'')) = Inr addr \<and>
         obj = [(''name'', or_default sn ''app''), (''url'', ''http://'' @ addr)]"
    if "deploy E p sn rg ci files cb sv = (Inr obj, sv', es)" for obj sv' es
    using that en
    by (auto simp add: deploy_def Let_def run_defs split: sum.splits if_splits prod.splits dest: G)
  from G D show ?thesis by blast
qed

theorem deployment_result_has_name_and_url_witness:
  "(\<exists>addr. execPromise (mock_env (Inr running_cluster) ''198.51.100.7'')
              (KubectlGetServiceIp (''app'' @ ''-service'')) = Inr addr \<and>
           [(''name'', ''app''), (''url'', ''http://198.51.100.7'')] =
           [(''name'', ''app''), (''url'', ''http://'' @ addr)]) \<and>
   (\<exists>addr. execPromise (mock_env (Inr running_cluster) ''198.51.100.7'')
              (KubectlGetServiceIp (or_default None ''app'' @ ''-service'')) = Inr addr \<and>
           [(''name'', ''app''), (''url'', ''http://198.51.100.7'')] =
           [(''name'', or_default None ''app''), (''url'', ''http://'' @ addr)])"
proof -
  have e: "fst scenario_E = Inr [(''name'', ''app''), (''url'', ''http://198.51.100.7'')]"
    unfolding scenario_E_def by code_simp
  have runE: "deployToGke (mock_env (Inr running_cluster) ''198.51.100.7'') ''my-project''
                ''europe-west1'' ''prod'' ''app''
                ''europe-west1-docker.pkg.dev/my-project/app-repo/app:latest'' True =
              (Inr [(''name'', ''app''), (''url'', ''http://198.51.100.7'')], snd scenario_E)"
    using e by (simp add: scenario_E_def prod_eq_iff)
  have a: "fst scenario_A = Inr [(''name'', ''app''), (''url'', ''http://198.51.100.7'')]"
    unfolding scenario_A_def by code_simp
  have runA: "deploy (mock_env (Inr running_cluster) ''198.51.100.7'') ''my-project'' None None None
          [PathEntry ''/srv/app/Dockerfile'', PathEntry ''/srv/app/index.js''] True all_enabled =
        (Inr [(''name'', ''app''), (''url'', ''http://198.51.100.7'')],
         fst (snd scenario_A), snd (snd scenario_A))"
    using a by (simp add: scenario_A_def prod_eq_iff)
  from deployment_result_has_name_and_url
         [of "mock_env (Inr running_cluster) ''198.51.100.7''" "''my-project''" "''europe-west1''"
             "''prod''" "''app''" "''europe-west1-docker.pkg.dev/my-project/app-repo/app:latest''"
             True None None None
             "[PathEntry ''/srv/app/Dockerfile'', PathEntry ''/srv/app/index.js'']" all_enabled]
       runE runA
  show ?thesis by blast
qed

text \<open>Scenario E succeeds, and the object it returns has no field \<open>serviceName\<close>.\<close>

theorem result_has_no_serviceName_field_counterexample:
  "fst scenario_E = Inr [(''name'', ''app''), (''url'', ''http://198.51.100.7'')] \<and>
   map_of [(''name'', ''app''), (''url'', ''http://198.51.100.7'')] ''serviceName'' = None"
  unfolding scenario_E_def by code_simp

section \<open>Progress notifications\<close>

text \<open>
  C8, as the code has it. The object \<open>logAndProgress\<close> hands to the subscriber has the
  two fields \<open>level\<close> (the severity) and \<open>data\<close> (the message), and no other. In
  every notification sent during a run of \<open>deploy\<close> or \<open>deployToGke\<close> the level is
  \<open>info\<close> or \<open>error\<close>.
\<close>

theorem notifications_carry_level_and_data:
  "notifications (logAndProgress m True s) = [[(''level'', s), (''data'', m)]] \<and>
   notifications (logAndProgress m False s) = [] \<and>
   list_all level_and_data (notifications (snd (snd (deploy E p sn rg ci files cb sv)))) \<and>
   list_all level_and_data (notifications (snd (deployToGke E p l c n i cb)))"
proof -
  have "deploy E p sn rg ci files cb sv =
          (fst (deploy E p sn rg ci files cb sv), fst (snd (deploy E p sn rg ci files cb sv)),
           snd (snd (deploy E p sn rg ci files cb sv)))"
    by simp
  from deploy_notifications[OF this] deployToGke_notifications[of E p l c n i cb]
  show ?thesis
    by (simp add: notifications_logAndProgress all_level_and_data_def)
qed

text \<open>A notification of scenario E: it has no field \<open>timestamp\<close>, \<open>severity\<close> or \<open>message\<close>.\<close>

theorem notification_without_timestamp_counterexample:
  "hd (notifications (snd scenario_E)) =
     [(''level'', ''info''), (''data'', ''GKE cluster prod exists.'')] \<and>
   map_of [(''level'', ''info''), (''data'', ''GKE cluster prod exists.'')] ''timestamp'' = None \<and>
   map_of [(''level'', ''info''), (''data'', ''GKE cluster prod exists.'')] ''severity'' = None \<and>
   map_of [(''level'', ''info''), (''data'', ''GKE cluster prod exists.'')] ''message'' = None"
  unfolding scenario_E_def by code_simp

section \<open>The two shapes of the file list\<close>

text \<open>
  C9. On a list of paths the selection of the build strategy is defined: it says whether
  some path, in lower case, ends with \<open>dockerfile\<close>. On a list that starts with an
  inline entry it throws a TypeError. So no run of \<open>deploy\<close> on such a list returns a
  result or triggers the build, whatever the collaborators do: either a call fails
  before the selection or the selection throws. In the module as shipped a call fails
  first, for both shapes: the two tools answer with the text of the ReferenceError for
  \<open>ensureStorageBucketExists\<close> (scenarios G and H).
\<close>

theorem inline_files_break_the_build_strategy_selection:
  "hasDockerfile lower (map PathEntry paths) =
     Inr (list_ex (\<lambda>file. endsWith (lower file) ''dockerfile'') paths) \<and>
   hasDockerfile lower (ContentEntry filename content # files) =
     Inl (new_TypeError ''file.toLowerCase is not a function'') \<and>
   isl (fst (deploy E p sn rg ci (ContentEntry filename content # files) cb sv)) \<and>
   TriggerBuild \<notin>
     set (stages_invoked (snd (snd (deploy E p sn rg ci (ContentEntry filename content # files) cb sv)))) \<and>
   (fst (deploy E p sn rg ci (ContentEntry filename content # files) cb sv) =
      Inl (new_TypeError ''file.toLowerCase is not a function'') \<or>
    list_ex (\<lambda>cr. snd cr \<noteq> None)
      (calls (snd (snd (deploy E p sn rg ci (ContentEntry filename content # files) cb sv))))) \<and>
   fst scenario_G = Inr ''Error deploying to GKE: ensureStorageBucketExists is not defined'' \<and>
   fst scenario_H = Inr ''Error deploying to GKE: ensureStorageBucketExists is not defined''"
proof -
  have paths: "hasDockerfile lower (map PathEntry paths) =
     Inr (list_ex (\<lambda>file. endsWith (lower file) ''dockerfile'') paths)"
    by (induction paths) simp_all
  have inline: "hasDockerfile lower (ContentEntry filename content # files) =
     Inl (new_TypeError ''file.toLowerCase is not a function'')"
    by simp
  obtain a sv1 es1 where
    en: "ensureApisEnabled E p REQUIRED_APIS cb sv = (a, sv1, es1)"
    by (cases "ensureApisEnabled E p REQUIRED_APIS cb sv") auto
  have "distinct REQUIRED_APIS" by (simp add: REQUIRED_APIS_def)
  from ensureApisEnabled_exact[OF this en]
  have failed1: "\<And>e. a = Inl e \<Longrightarrow> list_ex (\<lambda>cr. snd cr \<noteq> None) (calls es1)"
    by blast
  from ensureApisEnabled_calls[OF en] have ac: "api_calls a es1" by simp
  have st: "set (map (\<lambda>cr. stage_of (fst cr)) (calls es1)) \<subseteq> {EnableAPIs}"
    using ac by (auto simp: api_calls_def list_all_iff)
  have never: "isl (fst (deploy E p sn rg ci (ContentEntry filename content # files) cb sv))"
    using en
    by (auto simp add: deploy_def Let_def run_defs split: sum.splits prod.splits)
  have build: "TriggerBuild \<notin>
     set (stages_invoked (snd (snd (deploy E p sn rg ci (ContentEntry filename content # files) cb sv))))"
    using en st
    by (auto simp add: deploy_def Let_def run_defs stages_invoked_def calls_append
        calls_logAndProgress split: sum.splits prod.splits)
  have why: "fst (deploy E p sn rg ci (ContentEntry filename content # files) cb sv) =
      Inl (new_TypeError ''file.toLowerCase is not a function'') \<or>
    list_ex (\<lambda>cr. snd cr \<noteq> None)
      (calls (snd (snd (deploy E p sn rg ci (ContentEntry filename content # files) cb sv))))"
    using en failed1
    by (cases a)
       (auto simp add: deploy_def Let_def run_defs calls_append calls_logAndProgress
          split: sum.splits prod.splits)
  have g: "fst scenario_G = Inr ''Error deploying to GKE: ensureStorageBucketExists is not defined''"
    unfolding scenario_G_def by code_simp
  have h: "fst scenario_H = Inr ''Error deploying to GKE: ensureStorageBucketExists is not defined''"
    unfolding scenario_H_def by code_simp
  from paths inline never build why g h show ?thesis by blast
qed

section \<open>The tool that creates a project\<close>

text \<open>
  C10, as the code has it. A project identifier that is given and blank (nothing is left
  of it once trimmed) is refused before anything is called. Every other invocation
  answers with the message of the handler's \<open>catch\<close> branch: with the message of the
  error the creation threw, or, when the creation and the billing attachment succeeded,
  with that of the ReferenceError raised by the template of the success branch. No
  invocation answers with the success text.
\<close>

theorem create_project_never_reports_success:
  "create_project trim createProjectAndAttachBilling projectId =
     (if projectId \<noteq> None \<and> trim (the projectId) = [] then
        ''Error: If provided, Project ID must be a non-empty string.''
      else
        ''Error creating GCP project or attaching billing: '' @
        (case createProjectAndAttachBilling projectId of
           Inl e \<Rightarrow> message e
         | Inr result \<Rightarrow> ''newProjectId is not defined'')) \<and>
   create_project trim createProjectAndAttachBilling projectId \<noteq> success_text ident"
  by (simp add: create_project_def newProjectId_def new_ReferenceError_def success_text_def
      split: sum.splits)

text \<open>
  An invocation with a project identifier made of one space: the answer is the message of
  the guard, not one of the \<open>catch\<close> branch.
\<close>

theorem blank_project_id_counterexample:
  "create_project ascii_trim (\<lambda>projectId. Inr ()) (Some '' '') =
     ''Error: If provided, Project ID must be a non-empty string.'' \<and>
   \<not> prefix ''Error creating GCP project or attaching billing: ''
       (create_project ascii_trim (\<lambda>projectId. Inr ()) (Some '' ''))"
  by (simp add: create_project_def ascii_trim_def ascii_white_space_def)

end
